theory Spec2Isabelle
  imports Complex_Main "HOL-Library.Product_Lexorder" "HOL-Library.Option_ord"
    "HOL-Library.List_Lexorder" "HOL-Library.Char_ord"
begin

section \<open>Rainfall station consolidator (station1.py)\<close>

text \<open>
  The tables of the script are pandas dataframes. A cell that pandas shows as NaN is
  \<open>None\<close>; numbers are exact rationals (the floating-point rounding of the sums and
  quotients is outside this model). The seven station columns are typed the way the
  station files have them: a numeric station number, a name, and numeric site data.
\<close>

subsection \<open>Data model\<close>

definition REQUIRED_COLS :: "string list" where
  "REQUIRED_COLS = [''Station Number'', ''Station Name'', ''Height'', ''Easting'',
     ''Northing'', ''Latitude'', ''Longitude'', ''date'', ''rain'']"

definition META_COLS :: "string list" where
  "META_COLS = [''Station Number'', ''Station Name'', ''Height'', ''Easting'',
     ''Northing'', ''Latitude'', ''Longitude'']"

record station_meta =
  Station_Number :: "int option"
  Station_Name :: "string option"
  Height :: "rat option"
  Easting :: "rat option"
  Northing :: "rat option"
  Latitude :: "rat option"
  Longitude :: "rat option"

record date =
  year :: nat
  month :: nat
  day :: nat

text \<open>A row of the validated table: the date parsed (rows without one are dropped by
  the loader), the rain amount possibly missing.\<close>

record daily_record =
  meta :: station_meta
  date :: date
  rain :: "rat option"

text \<open>The caller's dataframe: its rows, and the derived columns that the summaries
  assign to it (\<open>None\<close>: the column does not exist; otherwise one value per row).\<close>

record station_frame =
  rows :: "daily_record list"
  col_YearMonth :: "(nat \<times> nat) list option"
  col_Year :: "nat list option"
  col_Month :: "nat list option"

record monthly_row =
  m_meta :: station_meta
  YearMonth :: string
  MonthlyRainfall :: rat
  DaysCount :: nat
  MissingCount :: nat
  PctMissing :: rat
  IncompleteMonth :: bool

record annual_row =
  a_meta :: station_meta
  Year :: nat
  AnnualRainfall :: rat
  DaysCountY :: nat
  MissingCountY :: nat
  PctMissingY :: rat
  MonthsObserved :: nat
  MissingMonths :: int
  IncompleteYear :: bool
  InsufficientMonths :: bool
  Flagged :: bool

subsection \<open>The dataframe operations the script relies on\<close>

text \<open>Sorting puts NaN last (pandas' \<open>na_position = 'last'\<close>, and the order of group
  keys): a missing value compares above every present one.\<close>

definition nan_last :: "'a option \<Rightarrow> bool \<times> 'a option" where
  "nan_last x = (x = None, x)"

definition meta_key :: "station_meta \<Rightarrow>
    (bool \<times> int option) \<times> (bool \<times> string option) \<times> (bool \<times> rat option) \<times>
    (bool \<times> rat option) \<times> (bool \<times> rat option) \<times> (bool \<times> rat option) \<times>
    (bool \<times> rat option)" where
  "meta_key m = (nan_last (Station_Number m), nan_last (Station_Name m),
     nan_last (Height m), nan_last (Easting m), nan_last (Northing m),
     nan_last (Latitude m), nan_last (Longitude m))"

text \<open>\<open>df.groupby(keys, dropna=False)\<close>: one group per distinct key, NaN keys kept,
  groups in key order, each group holding its rows' values in table order.\<close>

definition groupby :: "('k \<Rightarrow> 'o::linorder) \<Rightarrow> ('k \<times> 'v) list \<Rightarrow> ('k \<times> 'v list) list" where
  "groupby ord kvs =
     map (\<lambda>k. (k, map snd (filter (\<lambda>kv. fst kv = k) kvs)))
       (sort_key ord (remdups (map fst kvs)))"

text \<open>The aggregations \<open>"sum"\<close> (NaN counts as zero), \<open>"size"\<close> and
  \<open>lambda s: s.isna().sum()\<close>.\<close>

definition nansum :: "rat option list \<Rightarrow> rat" where
  "nansum vs = sum_list (map (\<lambda>v. case v of None \<Rightarrow> 0 | Some x \<Rightarrow> x) vs)"

definition isna_sum :: "'a option list \<Rightarrow> nat" where
  "isna_sum vs = length (filter (\<lambda>v. v = None) vs)"

text \<open>\<open>Series.round(3)\<close>: scale by 1000, round half to even, scale back.\<close>

definition round_half_even :: "rat \<Rightarrow> int" where
  "round_half_even x =
     (let f = \<lfloor>x\<rfloor>; d = x - of_int f
      in if d < 1 / 2 then f else if 1 / 2 < d then f + 1
         else if even f then f else f + 1)"

definition round3 :: "rat \<Rightarrow> rat" where
  "round3 x = of_int (round_half_even (x * 1000)) / 1000"

text \<open>\<open>dt.to_period("M")\<close> and the text of a monthly period, \<open>YYYY-MM\<close> (the years
  of a pandas timestamp have four digits).\<close>

definition to_period_M :: "date \<Rightarrow> nat \<times> nat" where
  "to_period_M d = (year d, month d)"

definition digit_char :: "nat \<Rightarrow> char" where
  "digit_char n = ''0123456789'' ! (n mod 10)"

definition period_str :: "nat \<times> nat \<Rightarrow> string" where
  "period_str p =
     [digit_char (fst p div 1000), digit_char (fst p div 100), digit_char (fst p div 10),
      digit_char (fst p), CHR ''-'', digit_char (snd p div 10), digit_char (snd p)]"


subsection \<open>summarize_monthly\<close>

definition monthly_agg ::
  "daily_record list \<Rightarrow> (nat \<times> nat) list \<Rightarrow> ((station_meta \<times> nat \<times> nat) \<times> rat option list) list" where
  "monthly_agg rs ym =
     groupby (\<lambda>k. (meta_key (fst k), snd k)) (zip (zip (map meta rs) ym) (map rain rs))"

definition monthly_row_of :: "rat \<Rightarrow> (station_meta \<times> nat \<times> nat) \<times> rat option list \<Rightarrow> monthly_row" where
  "monthly_row_of missing_threshold g =
     (let MonthlyRainfall' = nansum (snd g);
          DaysCount' = length (snd g);
          MissingCount' = isna_sum (snd g);
          PctMissing' = round3 (of_nat MissingCount' / of_nat DaysCount')
      in \<lparr>m_meta = fst (fst g), YearMonth = period_str (snd (fst g)),
          MonthlyRainfall = MonthlyRainfall', DaysCount = DaysCount',
          MissingCount = MissingCount', PctMissing = PctMissing',
          IncompleteMonth = (missing_threshold < PctMissing')\<rparr>)"

text \<open>The function returns the summary; the first component of the result is the
  caller's dataframe as the function leaves it.\<close>

definition summarize_monthly :: "station_frame \<Rightarrow> rat \<Rightarrow> station_frame \<times> monthly_row list" where
  "summarize_monthly df missing_threshold =
     (let ym = map (\<lambda>r. to_period_M (date r)) (rows df);
          df' = df\<lparr>col_YearMonth := Some ym\<rparr>;
          agg = map (monthly_row_of missing_threshold) (monthly_agg (rows df') ym)
      in (df', sort_key (\<lambda>s. (nan_last (Station_Number (m_meta s)), YearMonth s)) agg))"

subsection \<open>summarize_annual\<close>

text \<open>\<open>_nmonths\<close>: the number of distinct (year, month) pairs among the dates of a group.\<close>

definition nmonths :: "date list \<Rightarrow> nat" where
  "nmonths x = length (remdups (zip (map year x) (map month x)))"

definition annual_agg ::
  "daily_record list \<Rightarrow> nat list \<Rightarrow> ((station_meta \<times> nat) \<times> (rat option \<times> date) list) list" where
  "annual_agg rs ys =
     groupby (\<lambda>k. (meta_key (fst k), snd k))
       (zip (zip (map meta rs) ys) (zip (map rain rs) (map date rs)))"

definition annual_row_of ::
  "rat \<Rightarrow> nat \<Rightarrow> (station_meta \<times> nat) \<times> (rat option \<times> date) list \<Rightarrow> annual_row" where
  "annual_row_of missing_threshold min_months g =
     (let AnnualRainfall' = nansum (map fst (snd g));
          DaysCount' = length (snd g);
          MissingCount' = isna_sum (map fst (snd g));
          MonthsObserved' = nmonths (map snd (snd g));
          PctMissing' = round3 (of_nat MissingCount' / of_nat DaysCount');
          IncompleteYear' = (missing_threshold < PctMissing');
          InsufficientMonths' = (MonthsObserved' < min_months)
      in \<lparr>a_meta = fst (fst g), Year = snd (fst g),
          AnnualRainfall = AnnualRainfall', DaysCountY = DaysCount',
          MissingCountY = MissingCount', PctMissingY = PctMissing',
          MonthsObserved = MonthsObserved', MissingMonths = 12 - int MonthsObserved',
          IncompleteYear = IncompleteYear', InsufficientMonths = InsufficientMonths',
          Flagged = (IncompleteYear' \<or> InsufficientMonths')\<rparr>)"

definition summarize_annual ::
  "station_frame \<Rightarrow> rat \<Rightarrow> nat \<Rightarrow> station_frame \<times> annual_row list" where
  "summarize_annual df missing_threshold min_months =
     (let ys = map (\<lambda>r. year (date r)) (rows df);
          ms = map (\<lambda>r. month (date r)) (rows df);
          df' = df\<lparr>col_Year := Some ys, col_Month := Some ms\<rparr>;
          agg = map (annual_row_of missing_threshold min_months) (annual_agg (rows df') ys)
      in (df', sort_key (\<lambda>s. (nan_last (Station_Number (a_meta s)), Year s)) agg))"

subsection \<open>pivot_wide\<close>

text \<open>The wide table: the period columns in order, and one row per station holding the
  station columns and one cell per period column (\<open>None\<close>: an empty cell).\<close>

record wide_table =
  period_cols :: "string list"
  wide_rows :: "(station_meta \<times> rat option list) list"

definition notna_meta :: "station_meta \<Rightarrow> bool" where
  "notna_meta m \<longleftrightarrow> Station_Number m \<noteq> None \<and> Station_Name m \<noteq> None \<and> Height m \<noteq> None \<and>
     Easting m \<noteq> None \<and> Northing m \<noteq> None \<and> Latitude m \<noteq> None \<and> Longitude m \<noteq> None"

text \<open>\<open>pivot_table(index=META_COLS, columns="YearMonth", values="MonthlyRainfall",
  aggfunc="sum")\<close> groups by the index and column keys with pandas' default
  \<open>dropna=True\<close>, which leaves out every row with NaN in a key; it sums each group,
  and unstacks the period key into sorted columns.\<close>

definition pivot_wide :: "monthly_row list \<Rightarrow> wide_table" where
  "pivot_wide monthly_df =
     (let kept = filter (\<lambda>s. notna_meta (m_meta s)) monthly_df;
          grouped = groupby (\<lambda>k. (meta_key (fst k), snd k))
                      (map (\<lambda>s. ((m_meta s, YearMonth s), MonthlyRainfall s)) kept);
          agged = map (\<lambda>g. (fst g, sum_list (snd g))) grouped;
          index = sort_key meta_key (remdups (map (\<lambda>g. fst (fst g)) agged));
          cols = sort (remdups (map (\<lambda>g. snd (fst g)) agged))
      in \<lparr>period_cols = cols,
          wide_rows = map (\<lambda>m. (m, map (\<lambda>c. map_of agged (m, c)) cols)) index\<rparr>)"

text \<open>The two sums that the round trip compares: a station's cells over the period
  columns of the wide table (empty cells skipped), and its rainfall values in the
  long table.\<close>

definition wide_station_sum :: "wide_table \<Rightarrow> station_meta \<Rightarrow> rat" where
  "wide_station_sum w m = sum_list (map (\<lambda>r. nansum (snd r)) (filter (\<lambda>r. fst r = m) (wide_rows w)))"

definition long_station_sum :: "monthly_row list \<Rightarrow> station_meta \<Rightarrow> rat" where
  "long_station_sum monthly_df m =
     sum_list (map MonthlyRainfall (filter (\<lambda>s. m_meta s = m) monthly_df))"

subsection \<open>Errors and printed lines\<close>

datatype error =
    FileNotFoundError string
  | ValueError string "string list"
  | RuntimeError string
  | ParserError
  | PermissionError
  | OSError
  | KeyError string

datatype log_line = Loaded string nat | Skipping string error

subsection \<open>read_and_validate_csv and load_folder\<close>

text \<open>A CSV file as \<open>pd.read_csv\<close> returns it: the column names and the rows. The date
  and rain cells are still text; the fields of a column the file does not have are
  never read.\<close>

record raw_row =
  raw_meta :: station_meta
  raw_date :: string
  raw_rain :: string

record csv_table =
  columns :: "string list"
  raw_rows :: "raw_row list"

text \<open>The library calls are parameters: \<open>read_csv\<close> (an unreadable file is an error),
  \<open>to_datetime\<close> with \<open>errors="coerce"\<close> (no date: \<open>None\<close>), \<open>to_numeric\<close> with
  \<open>errors="coerce"\<close> (no number: \<open>None\<close>) and \<open>glob\<close>.\<close>

definition coerce_types ::
  "(string \<Rightarrow> string \<Rightarrow> date option) \<Rightarrow> (string \<Rightarrow> rat option) \<Rightarrow> string \<Rightarrow> raw_row
     \<Rightarrow> station_meta \<times> date option \<times> rat option" where
  "coerce_types to_datetime to_numeric date_format r =
     (raw_meta r, to_datetime (raw_date r) date_format, to_numeric (raw_rain r))"

definition dropna_date :: "(station_meta \<times> date option \<times> rat option) list \<Rightarrow> daily_record list" where
  "dropna_date xs =
     List.map_filter (\<lambda>x. case fst (snd x) of None \<Rightarrow> None
        | Some d \<Rightarrow> Some \<lparr>meta = fst x, date = d, rain = snd (snd x)\<rparr>) xs"

definition read_and_validate_csv ::
  "(string \<Rightarrow> error + csv_table) \<Rightarrow> (string \<Rightarrow> string \<Rightarrow> date option) \<Rightarrow> (string \<Rightarrow> rat option)
     \<Rightarrow> string \<Rightarrow> string \<Rightarrow> error + daily_record list" where
  "read_and_validate_csv read_csv to_datetime to_numeric file date_format =
     (case read_csv file of
        Inl e \<Rightarrow> Inl e
      | Inr df \<Rightarrow>
          (let missing = filter (\<lambda>c. c \<notin> set (columns df)) REQUIRED_COLS
           in if missing \<noteq> [] then Inl (ValueError ''Missing columns'' missing)
              else Inr (dropna_date
                     (map (coerce_types to_datetime to_numeric date_format) (raw_rows df)))))"

text \<open>\<open>os.path.basename\<close> on POSIX paths: what follows the last slash.\<close>

definition basename :: "string \<Rightarrow> string" where
  "basename p = rev (takeWhile (\<lambda>c. c \<noteq> CHR ''/'') (rev p))"

fun load_loop ::
  "(string \<Rightarrow> error + daily_record list) \<Rightarrow> string list \<Rightarrow> daily_record list list \<Rightarrow> log_line list
     \<Rightarrow> daily_record list list \<times> log_line list" where
  "load_loop rd [] frames out = (frames, out)"
| "load_loop rd (f # fs) frames out =
     (case rd f of
        Inr df \<Rightarrow> load_loop rd fs (frames @ [df]) (out @ [Loaded (basename f) (length df)])
      | Inl e \<Rightarrow> load_loop rd fs frames (out @ [Skipping (basename f) e]))"

text \<open>The result of \<open>load_folder\<close> with the lines it printed.\<close>

definition load_folder ::
  "(string \<Rightarrow> string list) \<Rightarrow> (string \<Rightarrow> error + csv_table) \<Rightarrow> (string \<Rightarrow> string \<Rightarrow> date option)
     \<Rightarrow> (string \<Rightarrow> rat option) \<Rightarrow> string \<Rightarrow> string \<Rightarrow> (error + station_frame) \<times> log_line list" where
  "load_folder glob_csv read_csv to_datetime to_numeric input_folder date_format =
     (let csv_files = glob_csv input_folder
      in if csv_files = [] then (Inl (FileNotFoundError ''No CSV files found in the folder.''), [])
         else
           (let res = load_loop
                        (\<lambda>f. read_and_validate_csv read_csv to_datetime to_numeric f date_format)
                        csv_files [] []
            in if fst res = [] then (Inl (RuntimeError ''No valid CSVs after validation.''), snd res)
               else (Inr \<lparr>rows = concat (fst res), col_YearMonth = None, col_Year = None,
                            col_Month = None\<rparr>, snd res)))"

text \<open>What one file contributes to the load and the line printed for it.\<close>

definition validated :: "(string \<Rightarrow> error + daily_record list) \<Rightarrow> string \<Rightarrow> daily_record list option" where
  "validated rd f = (case rd f of Inr d \<Rightarrow> Some d | Inl e \<Rightarrow> None)"

definition printed :: "(string \<Rightarrow> error + daily_record list) \<Rightarrow> string \<Rightarrow> log_line" where
  "printed rd f = (case rd f of Inr d \<Rightarrow> Loaded (basename f) (length d)
                   | Inl e \<Rightarrow> Skipping (basename f) e)"

subsection \<open>safe_save_csv\<close>

text \<open>The file system: what each path holds, and what writing to a path does (it
  succeeds, raises PermissionError as for an open or locked file, or raises another
  OSError).\<close>

datatype write_outcome = Writes | Locked | Fails

record 'a filesystem =
  files :: "string \<Rightarrow> 'a option"
  on_write :: "string \<Rightarrow> write_outcome"

definition to_csv :: "'a filesystem \<Rightarrow> 'a \<Rightarrow> string \<Rightarrow> error + 'a filesystem" where
  "to_csv fs df path =
     (case on_write fs path of
        Writes \<Rightarrow> Inr (fs\<lparr>files := (files fs)(path := Some df)\<rparr>)
      | Locked \<Rightarrow> Inl PermissionError
      | Fails \<Rightarrow> Inl OSError)"

text \<open>\<open>os.path.splitext\<close> on POSIX paths: the extension starts at the last dot of
  the last path component, unless that component has only dots before it.\<close>

definition rfind :: "string \<Rightarrow> char \<Rightarrow> int" where
  "rfind p c =
     (if c \<in> set p then int (length p) - 1 - int (length (takeWhile (\<lambda>x. x \<noteq> c) (rev p)))
      else - 1)"

definition splitext :: "string \<Rightarrow> string \<times> string" where
  "splitext p =
     (let sepIndex = rfind p (CHR ''/'');
          dotIndex = rfind p (CHR ''.'')
      in if sepIndex < dotIndex \<and>
            list_ex (\<lambda>c. c \<noteq> CHR ''.'') (drop (nat (sepIndex + 1)) (take (nat dotIndex) p))
         then (take (nat dotIndex) p, drop (nat dotIndex) p)
         else (p, []))"

text \<open>\<open>timestamp\<close> is what \<open>time.strftime("%Y%m%d-%H%M%S")\<close> returns. The result is the
  returned path or the exception that leaves the function, with the file system after.\<close>

definition safe_save_csv ::
  "string \<Rightarrow> 'a filesystem \<Rightarrow> 'a \<Rightarrow> string \<Rightarrow> (error + string) \<times> 'a filesystem" where
  "safe_save_csv timestamp fs df output_file =
     (case to_csv fs df output_file of
        Inr fs' \<Rightarrow> (Inr output_file, fs')
      | Inl e \<Rightarrow>
          if e = PermissionError then
            (let fallback_file = fst (splitext output_file) @ ''_'' @ timestamp @ ''.csv''
             in case to_csv fs df fallback_file of
                  Inr fs' \<Rightarrow> (Inr fallback_file, fs')
                | Inl e' \<Rightarrow> (Inl e', fs))
          else (Inl e, fs))"

section \<open>Vegetation and rainfall correlation tool (landsat.py)\<close>

subsection \<open>Data model\<close>

record ndvi_row =
  n_year :: "int option"
  n_season :: "string option"
  NDVI :: "rat option"

record rain_row =
  r_year :: "int option"
  rain_mm :: "rat option"

text \<open>A row of a yearly series (\<open>year\<close>, \<open>NDVI\<close>), and a row of the merged table
  (\<open>year\<close>, \<open>ndvi\<close>, \<open>rain\<close>).\<close>

type_synonym series_row = "int \<times> rat"

record merged_row =
  m_year :: int
  ndvi :: rat
  m_rain :: "rat option"

record 'stat corr_row =
  c_season :: string
  lag_years :: int
  n_pairs :: nat
  stats :: 'stat

subsection \<open>build_series and prepare_merged\<close>

text \<open>\<open>str.upper\<close> on ASCII text.\<close>

definition upper :: "string \<Rightarrow> string" where
  "upper s = map (\<lambda>c. if CHR ''a'' \<le> c \<and> c \<le> CHR ''z'' then char_of (of_char c - (32::nat)) else c) s"

text \<open>\<open>drop_duplicates(subset=["year"], keep="last")\<close>.\<close>

fun drop_duplicates_last :: "series_row list \<Rightarrow> series_row list" where
  "drop_duplicates_last [] = []"
| "drop_duplicates_last (x # xs) =
     (if fst x \<in> fst ` set xs then drop_duplicates_last xs else x # drop_duplicates_last xs)"

definition build_series :: "ndvi_row list \<Rightarrow> string \<Rightarrow> int \<Rightarrow> rat \<Rightarrow> series_row list" where
  "build_series df season start_year min_ndvi =
     (let d = filter (\<lambda>r. n_season r = Some (upper season)) df;
          d = List.map_filter (\<lambda>r. case (n_year r, NDVI r) of
                  (Some y, Some v) \<Rightarrow> Some (y, v) | _ \<Rightarrow> None) d;
          d = sort_key fst d;
          d = drop_duplicates_last d;
          d = filter (\<lambda>r. start_year \<le> fst r) d;
          d = filter (\<lambda>r. min_ndvi \<le> snd r) d
      in d)"

text \<open>\<open>pd.merge(..., on="year", how="inner")\<close>: every pair of a left and a right row
  with the same year, in the order of the left rows.\<close>

definition merge_inner :: "series_row list \<Rightarrow> rain_row list \<Rightarrow> merged_row list" where
  "merge_inner d rain_df =
     concat (map (\<lambda>l. map (\<lambda>r. \<lparr>m_year = fst l, ndvi = snd l, m_rain = rain_mm r\<rparr>)
                          (filter (\<lambda>r. r_year r = Some (fst l)) rain_df)) d)"

definition prepare_merged ::
  "ndvi_row list \<Rightarrow> rain_row list \<Rightarrow> string \<Rightarrow> rat option \<Rightarrow> merged_row list" where
  "prepare_merged df rain_df season min_ndvi =
     (let d = build_series df season 1984 (1 / 4);
          d = (case min_ndvi of None \<Rightarrow> d | Some v \<Rightarrow> filter (\<lambda>r. v \<le> snd r) d)
      in sort_key m_year (merge_inner d rain_df))"

subsection \<open>lagged_correlations\<close>

text \<open>\<open>Series.shift(k)\<close>: the value at position \<open>i\<close> moves to position \<open>i + k\<close>; the
  positions left empty hold NaN.\<close>

definition shift :: "'a option list \<Rightarrow> int \<Rightarrow> 'a option list" where
  "shift xs k =
     map (\<lambda>i. if 0 \<le> int i - k \<and> int i - k < int (length xs) then xs ! nat (int i - k) else None)
       [0..<length xs]"

text \<open>The pairs (ndvi, rain_lag) of one lag, after \<open>dropna\<close>.\<close>

definition lag_pairs :: "merged_row list \<Rightarrow> int \<Rightarrow> (merged_row \<times> rat) list" where
  "lag_pairs base lag =
     List.map_filter (\<lambda>x. case snd x of None \<Rightarrow> None | Some v \<Rightarrow> Some (fst x, v))
       (zip base (shift (map m_rain base) (lag * - 1)))"

fun lag_loop ::
  "(rat list \<Rightarrow> rat list \<Rightarrow> 'stat) \<Rightarrow> merged_row list \<Rightarrow> string \<Rightarrow> int list
     \<Rightarrow> 'stat corr_row list \<Rightarrow> 'stat corr_row list" where
  "lag_loop corr_with_p base season [] out = out"
| "lag_loop corr_with_p base season (lag # lags) out =
     (let tmp = lag_pairs base lag
      in if length tmp < 3 then lag_loop corr_with_p base season lags out
         else lag_loop corr_with_p base season lags
                (out @ [\<lparr>c_season = season, lag_years = lag, n_pairs = length tmp,
                           stats = corr_with_p (map (\<lambda>x. ndvi (fst x)) tmp) (map snd tmp)\<rparr>]))"

text \<open>\<open>pd.DataFrame(rows)\<close> of an empty list has no columns, and \<open>sort_values\<close> by a
  column that does not exist raises KeyError.\<close>

definition lagged_correlations ::
  "(rat list \<Rightarrow> rat list \<Rightarrow> 'stat) \<Rightarrow> ndvi_row list \<Rightarrow> rain_row list \<Rightarrow> string \<Rightarrow> int list
     \<Rightarrow> rat option \<Rightarrow> error + 'stat corr_row list" where
  "lagged_correlations corr_with_p df rain_df season lags min_ndvi =
     (let base = prepare_merged df rain_df season min_ndvi;
          rows = lag_loop corr_with_p base season lags []
      in if rows = [] then Inl (KeyError ''season'')
         else Inr (sort_key (\<lambda>r. (c_season r, lag_years r)) rows))"

section \<open>Example tables\<close>

definition example_station :: station_meta where
  "example_station = \<lparr>Station_Number = Some 1519, Station_Name = Some ''CLARA'', Height = Some 55,
     Easting = Some 225600, Northing = Some 230600, Latitude = Some (53321 / 1000),
     Longitude = Some (- 7616 / 1000)\<rparr>"

text \<open>Four days of January 2020 at one station, one of them without a rain value.\<close>

definition example_frame :: station_frame where
  "example_frame = \<lparr>rows =
      [\<lparr>meta = example_station, date = \<lparr>year = 2020, month = 1, day = 1\<rparr>, rain = Some 2\<rparr>,
       \<lparr>meta = example_station, date = \<lparr>year = 2020, month = 1, day = 2\<rparr>, rain = None\<rparr>,
       \<lparr>meta = example_station, date = \<lparr>year = 2020, month = 1, day = 3\<rparr>, rain = Some (3 / 2)\<rparr>,
       \<lparr>meta = example_station, date = \<lparr>year = 2020, month = 1, day = 4\<rparr>, rain = Some (5 / 2)\<rparr>],
     col_YearMonth = None, col_Year = None, col_Month = None\<rparr>"

text \<open>A second station whose height is missing, a folder of two station files (one
  without a rain column), file systems that refuse writes, and two years of summer
  vegetation readings with their rainfall.\<close>

definition example_station_nan :: station_meta where
  "example_station_nan = \<lparr>Station_Number = Some 2437, Station_Name = Some ''ABBEYLEIX'', Height = None,
     Easting = Some 243800, Northing = Some 184700, Latitude = Some (52915 / 1000),
     Longitude = Some (- 7348 / 1000)\<rparr>"

definition example_frame_nan :: station_frame where
  "example_frame_nan = \<lparr>rows =
      [\<lparr>meta = example_station, date = \<lparr>year = 2020, month = 1, day = 1\<rparr>, rain = Some 2\<rparr>,
       \<lparr>meta = example_station_nan, date = \<lparr>year = 2020, month = 1, day = 1\<rparr>, rain = Some 5\<rparr>],
     col_YearMonth = None, col_Year = None, col_Month = None\<rparr>"

definition example_csv :: csv_table where
  "example_csv = \<lparr>columns = REQUIRED_COLS, raw_rows =
     [\<lparr>raw_meta = example_station, raw_date = ''01-Jan-20'', raw_rain = ''2.5''\<rparr>,
      \<lparr>raw_meta = example_station, raw_date = ''not a date'', raw_rain = ''1.0''\<rparr>,
      \<lparr>raw_meta = example_station, raw_date = ''02-Jan-20'', raw_rain = ''n/a''\<rparr>]\<rparr>"

definition example_csv_no_rain :: csv_table where
  "example_csv_no_rain = \<lparr>columns = META_COLS @ [''date''], raw_rows = []\<rparr>"

definition example_read_csv :: "string \<Rightarrow> error + csv_table" where
  "example_read_csv f =
     (if f = ''in/a.csv'' then Inr example_csv
      else if f = ''in/b.csv'' then Inr example_csv_no_rain
      else Inl ParserError)"

definition example_glob :: "string \<Rightarrow> string list" where
  "example_glob d = (if d = ''in'' then [''in/a.csv'', ''in/b.csv''] else [])"

definition example_to_datetime :: "string \<Rightarrow> string \<Rightarrow> date option" where
  "example_to_datetime s fmt =
     (if s = ''01-Jan-20'' then Some \<lparr>year = 2020, month = 1, day = 1\<rparr>
      else if s = ''02-Jan-20'' then Some \<lparr>year = 2020, month = 1, day = 2\<rparr>
      else None)"

definition example_to_numeric :: "string \<Rightarrow> rat option" where
  "example_to_numeric s =
     (if s = ''2.5'' then Some (5 / 2) else if s = ''1.0'' then Some 1 else None)"

definition example_loaded :: "daily_record list" where
  "example_loaded =
     [\<lparr>meta = example_station, date = \<lparr>year = 2020, month = 1, day = 1\<rparr>, rain = Some (5 / 2)\<rparr>,
      \<lparr>meta = example_station, date = \<lparr>year = 2020, month = 1, day = 2\<rparr>, rain = None\<rparr>]"

definition example_fs_locked :: "monthly_row list filesystem" where
  "example_fs_locked = \<lparr>files = (\<lambda>p. None),
     on_write = (\<lambda>p. if p = ''out/summary.csv'' then Locked else Writes)\<rparr>"

definition example_fs_missing_dir :: "monthly_row list filesystem" where
  "example_fs_missing_dir = \<lparr>files = (\<lambda>p. None), on_write = (\<lambda>p. Fails)\<rparr>"

definition example_fs_read_only :: "monthly_row list filesystem" where
  "example_fs_read_only = \<lparr>files = (\<lambda>p. None), on_write = (\<lambda>p. Locked)\<rparr>"

definition example_ndvi :: "ndvi_row list" where
  "example_ndvi =
     [\<lparr>n_year = Some 2000, n_season = Some ''SUMMER'', NDVI = Some (1 / 2)\<rparr>,
      \<lparr>n_year = Some 2001, n_season = Some ''SUMMER'', NDVI = Some (3 / 5)\<rparr>]"

definition example_rain :: "rain_row list" where
  "example_rain =
     [\<lparr>r_year = Some 2000, rain_mm = Some 900\<rparr>, \<lparr>r_year = Some 2001, rain_mm = Some 1000\<rparr>]"

section \<open>Properties of the station summaries\<close>

subsection \<open>Grouping, period text and evaluation lemmas\<close>

lemma groupby_keys: "map fst (groupby ord kvs) = sort_key ord (remdups (map fst kvs))"
  by (simp add: groupby_def comp_def)

lemma groupby_set_keys: "fst ` set (groupby ord kvs) = fst ` set kvs"
proof -
  have "fst ` set (groupby ord kvs) = set (map fst (groupby ord kvs))" by simp
  also have "\<dots> = fst ` set kvs" unfolding groupby_keys by simp
  finally show ?thesis .
qed


lemma groupby_group:
  "(k, vs) \<in> set (groupby ord kvs) \<Longrightarrow> vs = map snd (filter (\<lambda>kv. fst kv = k) kvs)"
  by (auto simp: groupby_def)

lemma groupby_mem:
  "g \<in> set (groupby ord kvs) \<longleftrightarrow>
     fst g \<in> fst ` set kvs \<and> snd g = map snd (filter (\<lambda>kv. fst kv = fst g) kvs)"
  by (cases g) (auto simp: groupby_def)

lemma groupby_nonempty: "g \<in> set (groupby ord kvs) \<Longrightarrow> snd g \<noteq> []"
  by (force simp: groupby_mem filter_empty_conv)

lemma zip3_map: "zip (zip (map f xs) (map g xs)) (map h xs) = map (\<lambda>x. ((f x, g x), h x)) xs"
  by (induction xs) auto

lemma monthly_agg_map:
  "monthly_agg rs (map (\<lambda>r. to_period_M (date r)) rs) =
     groupby (\<lambda>k. (meta_key (fst k), snd k))
       (map (\<lambda>r. ((meta r, to_period_M (date r)), rain r)) rs)"
  by (simp add: monthly_agg_def zip3_map)

lemma set_summarize_monthly:
  "set (snd (summarize_monthly df thr)) =
     monthly_row_of thr ` set (monthly_agg (rows df) (map (\<lambda>r. to_period_M (date r)) (rows df)))"
  by (simp add: summarize_monthly_def Let_def)

lemma digit_char_inj: "digit_char a = digit_char b \<Longrightarrow> a mod 10 = b mod 10"
proof -
  assume h: "digit_char a = digit_char b"
  have d: "distinct ''0123456789''" by simp
  have l: "a mod 10 < length ''0123456789''" "b mod 10 < length ''0123456789''" by simp_all
  from h have "''0123456789'' ! (a mod 10) = ''0123456789'' ! (b mod 10)"
    by (simp only: digit_char_def)
  with nth_eq_iff_index_eq [OF d l] show ?thesis by blast
qed





text \<open>On four-digit years the order of the period texts is the order of the periods.\<close>

lemma digit_below_ten:
  "(k::nat) < 10 \<Longrightarrow>
     k = 0 \<or> k = 1 \<or> k = 2 \<or> k = 3 \<or> k = 4 \<or> k = 5 \<or> k = 6 \<or> k = 7 \<or> k = 8 \<or> k = 9"
  by arith

lemma of_char_digit_nth:
  assumes "k < 10"
  shows "of_char (''0123456789'' ! k) = (48 + k :: nat)"
  using digit_below_ten [OF assms] by (elim disjE) simp_all

lemma of_char_digit_char: "of_char (digit_char a) = (48 + a mod 10 :: nat)"
  unfolding digit_char_def by (rule of_char_digit_nth) simp

lemma digit_char_less_iff: "digit_char a < digit_char b \<longleftrightarrow> a mod 10 < b mod 10"
  by (simp only: less_char_def of_char_digit_char) simp

lemma digit_char_eq_iff: "digit_char a = digit_char b \<longleftrightarrow> a mod 10 = b mod 10"
proof
  assume "digit_char a = digit_char b"
  then show "a mod 10 = b mod 10" by (rule digit_char_inj)
next
  assume "a mod 10 = b mod 10"
  then show "digit_char a = digit_char b" by (simp add: digit_char_def)
qed

lemma lex10_less:
  "(x div 10 < y div 10 \<or> x div 10 = y div 10 \<and> x mod 10 < y mod 10) \<longleftrightarrow> (x::nat) < y"
proof -
  have "x = 10 * (x div 10) + x mod 10" "y = 10 * (y div 10) + y mod 10" by simp_all
  moreover have "x mod 10 < 10" "y mod 10 < 10" by simp_all
  ultimately show ?thesis by linarith
qed

lemma lex10_eq: "(x div 10 = y div 10 \<and> x mod 10 = y mod 10) \<longleftrightarrow> (x::nat) = y"
  by (metis div_mult_mod_eq)

lemma digits4_order:
  assumes "(a::nat) < 10000" "b < 10000"
  shows "(a div 1000 mod 10 < b div 1000 mod 10 \<or> a div 1000 mod 10 = b div 1000 mod 10 \<and>
          (a div 100 mod 10 < b div 100 mod 10 \<or> a div 100 mod 10 = b div 100 mod 10 \<and>
          (a div 10 mod 10 < b div 10 mod 10 \<or> a div 10 mod 10 = b div 10 mod 10 \<and>
          (a mod 10 < b mod 10 \<or> a mod 10 = b mod 10 \<and> R)))) \<longleftrightarrow> (a < b \<or> a = b \<and> R)"
proof -
  have d: "a div 1000 mod 10 = a div 1000" "b div 1000 mod 10 = b div 1000"
    using assms by simp_all
  have e: "a div 100 div 10 = a div 1000" "b div 100 div 10 = b div 1000"
    "a div 10 div 10 = a div 100" "b div 10 div 10 = b div 100"
    by (simp_all add: div_mult2_eq [symmetric])
  note l0 = lex10_less [of a b] and q0 = lex10_eq [of a b]
  note l1 = lex10_less [of "a div 10" "b div 10", unfolded e]
    and q1 = lex10_eq [of "a div 10" "b div 10", unfolded e]
  note l2 = lex10_less [of "a div 100" "b div 100", unfolded e]
    and q2 = lex10_eq [of "a div 100" "b div 100", unfolded e]
  show ?thesis unfolding d using l0 q0 l1 q1 l2 q2 by blast
qed

lemma digits2_order:
  assumes "(a::nat) < 100" "b < 100"
  shows "(a div 10 mod 10 < b div 10 mod 10 \<or> a div 10 mod 10 = b div 10 mod 10 \<and>
          (a mod 10 < b mod 10 \<or> a mod 10 = b mod 10)) \<longleftrightarrow> a \<le> b"
proof -
  have d: "a div 10 mod 10 = a div 10" "b div 10 mod 10 = b div 10"
    using assms by simp_all
  show ?thesis unfolding d using lex10_less [of a b] lex10_eq [of a b] by auto
qed

lemma period_str_le_iff:
  assumes "fst p < 10000" "fst q < 10000" "snd p < 100" "snd q < 100"
  shows "period_str p \<le> period_str q \<longleftrightarrow> p \<le> q"
proof -
  have "period_str p \<le> period_str q \<longleftrightarrow>
      (fst p < fst q \<or> fst p = fst q \<and> snd p \<le> snd q)"
    unfolding period_str_def
    by (simp only: Cons_le_Cons digit_char_less_iff digit_char_eq_iff Nil_le_Cons
        digits4_order [OF assms(1,2)] digits2_order [OF assms(3,4), symmetric]
        less_irrefl simp_thms)
  also have "\<dots> \<longleftrightarrow> p \<le> q"
    by (cases p; cases q) auto
  finally show ?thesis .
qed

lemma monthly_row_of_flag:
  "IncompleteMonth (monthly_row_of thr g) = (thr < PctMissing (monthly_row_of thr g))"
  by (simp add: monthly_row_of_def Let_def)

lemma set_summarize_annual:
  "set (snd (summarize_annual df thr mm)) =
     annual_row_of thr mm ` set (annual_agg (rows df) (map (\<lambda>r. year (date r)) (rows df)))"
  by (simp add: summarize_annual_def Let_def)

lemma zip4_map:
  "zip (zip (map f xs) (map g xs)) (zip (map h xs) (map k xs)) =
     map (\<lambda>x. ((f x, g x), (h x, k x))) xs"
  by (induction xs) auto

lemma monthly_agg_mem:
  "g \<in> set (monthly_agg rs (map (\<lambda>r. to_period_M (date r)) rs)) \<longleftrightarrow>
     (\<exists>r\<in>set rs. fst g = (meta r, to_period_M (date r))) \<and>
     snd g = map rain (filter (\<lambda>r. (meta r, to_period_M (date r)) = fst g) rs)"
  unfolding monthly_agg_map groupby_mem
  by (auto simp: filter_map comp_def image_iff)

lemma annual_agg_mem:
  "g \<in> set (annual_agg rs (map (\<lambda>r. year (date r)) rs)) \<longleftrightarrow>
     (\<exists>r\<in>set rs. fst g = (meta r, year (date r))) \<and>
     snd g = map (\<lambda>r. (rain r, date r)) (filter (\<lambda>r. (meta r, year (date r)) = fst g) rs)"
  unfolding annual_agg_def zip4_map groupby_mem
  by (auto simp: filter_map comp_def image_iff)

lemma nansum_map_filter: "nansum (map f xs) = sum_list (List.map_filter f xs)"
  by (induction xs) (simp_all add: nansum_def List.map_filter_simps split: option.splits)

lemma isna_sum_map: "isna_sum (map f xs) = length (filter (\<lambda>x. f x = None) xs)"
  by (simp add: isna_sum_def filter_map comp_def)



lemma nmonths_one_year:
  assumes "\<forall>d\<in>set x. year d = y"
  shows "nmonths x = card (month ` set x)"
proof -
  have z: "zip (map year x) (map month x) = map (\<lambda>d. (year d, month d)) x"
    by (induction x) auto
  have "set (map (\<lambda>d. (year d, month d)) x) = (\<lambda>m. (y, m)) ` (month ` set x)"
    using assms by (auto simp: image_iff)
  moreover have "inj_on (\<lambda>m. (y, m)) (month ` set x)" by (simp add: inj_on_def)
  ultimately have "card (set (map (\<lambda>d. (year d, month d)) x)) = card (month ` set x)"
    by (simp only: card_image)
  then show ?thesis by (simp add: nmonths_def z length_remdups_card_conv)
qed








lemma round3_quarter: "round3 (1 / 4) = 1 / 4"
  by code_simp


lemma example_annual: "snd (summarize_annual example_frame thr mm) =
  [\<lparr>a_meta = example_station, Year = 2020, AnnualRainfall = 6, DaysCountY = 4,
    MissingCountY = 1, PctMissingY = 1 / 4, MonthsObserved = 1, MissingMonths = 11,
    IncompleteYear = (thr < 1 / 4), InsufficientMonths = (1 < mm),
    Flagged = (thr < 1 / 4 \<or> 1 < mm)\<rparr>]"
  by (simp add: summarize_annual_def annual_agg_def groupby_def example_frame_def nmonths_def
      annual_row_of_def nansum_def isna_sum_def round3_quarter Let_def)


lemma map_filter_skip:
  "\<forall>x\<in>set xs. \<not> P x \<longrightarrow> f x = None \<Longrightarrow>
     List.map_filter f (filter P xs) = List.map_filter f xs"
  by (induction xs) (auto simp: List.map_filter_simps split: option.splits)

lemma missing_rain_counted:
  assumes d: "d \<in> set (rows df)" and n: "rain d = None"
  shows "\<exists>s\<in>set (snd (summarize_monthly df thr)).
           m_meta s = meta d \<and> YearMonth s = period_str (to_period_M (date d)) \<and>
           0 < MissingCount s \<and> MissingCount s \<le> DaysCount s \<and>
           MonthlyRainfall s =
             sum_list (List.map_filter rain
               (filter (\<lambda>x. meta x = meta d \<and> to_period_M (date x) = to_period_M (date d) \<and>
                            rain x \<noteq> None) (rows df)))"
proof -
  let ?pm = "\<lambda>x. to_period_M (date x)"
  let ?grp = "filter (\<lambda>x. meta x = meta d \<and> ?pm x = ?pm d) (rows df)"
  let ?g0 = "((meta d, ?pm d), map rain ?grp)"
  let ?s0 = "monthly_row_of thr ?g0"
  have "?g0 \<in> set (monthly_agg (rows df) (map ?pm (rows df)))"
    unfolding monthly_agg_mem using d by auto
  then have s0: "?s0 \<in> set (snd (summarize_monthly df thr))"
    unfolding set_summarize_monthly by blast
  have key: "m_meta ?s0 = meta d \<and> YearMonth ?s0 = period_str (?pm d)"
    by (simp add: monthly_row_of_def Let_def)
  from d n have "d \<in> set (filter (\<lambda>x. rain x = None) ?grp)" by simp
  then have "0 < length (filter (\<lambda>x. rain x = None) ?grp)"
    by (metis length_pos_if_in_set)
  then have pos: "0 < MissingCount ?s0"
    by (simp add: monthly_row_of_def Let_def isna_sum_map)
  have le: "MissingCount ?s0 \<le> DaysCount ?s0"
  proof -
    have "MissingCount ?s0 = length (filter (\<lambda>v. v = None) (map rain ?grp))"
      by (simp only: monthly_row_of_def Let_def isna_sum_def monthly_row.simps snd_conv)
    moreover have "DaysCount ?s0 = length (map rain ?grp)"
      by (simp only: monthly_row_of_def Let_def monthly_row.simps snd_conv)
    ultimately show ?thesis by (simp only: length_filter_le)
  qed
  have "List.map_filter rain (filter (\<lambda>x. rain x \<noteq> None) ?grp) = List.map_filter rain ?grp"
    by (rule map_filter_skip) simp
  moreover have "filter (\<lambda>x. rain x \<noteq> None) ?grp =
      filter (\<lambda>x. meta x = meta d \<and> ?pm x = ?pm d \<and> rain x \<noteq> None) (rows df)"
    by (simp add: conj_commute conj_left_commute)
  ultimately have sum: "MonthlyRainfall ?s0 =
      sum_list (List.map_filter rain
        (filter (\<lambda>x. meta x = meta d \<and> ?pm x = ?pm d \<and> rain x \<noteq> None) (rows df)))"
    by (simp add: monthly_row_of_def Let_def nansum_map_filter)
  from s0 key pos le sum show ?thesis by blast
qed

subsection \<open>Threshold flags\<close>




subsection \<open>Monthly aggregation\<close>



subsection \<open>Annual flags\<close>

text \<open>
  C3. In every row of the annual summary, MonthsObserved is the number of distinct months
  among the rows of that station and year, InsufficientMonths holds exactly when
  MonthsObserved is strictly less than the minimum the caller gives (a year with exactly
  that many months is not flagged), and Flagged holds exactly when IncompleteYear or
  InsufficientMonths does.
\<close>

theorem insufficient_months_flag:
  assumes "a \<in> set (snd (summarize_annual df thr min_months))"
  shows "MonthsObserved a =
           card ((\<lambda>r. month (date r)) `
             {r \<in> set (rows df). meta r = a_meta a \<and> year (date r) = Year a}) \<and>
         (InsufficientMonths a \<longleftrightarrow> MonthsObserved a < min_months) \<and>
         (MonthsObserved a = min_months \<longrightarrow> \<not> InsufficientMonths a) \<and>
         (Flagged a \<longleftrightarrow> IncompleteYear a \<or> InsufficientMonths a)"
proof -
  from assms obtain g where g: "g \<in> set (annual_agg (rows df) (map (\<lambda>r. year (date r)) (rows df)))"
    and a: "a = annual_row_of thr min_months g"
    unfolding set_summarize_annual by blast
  let ?grp = "filter (\<lambda>r. (meta r, year (date r)) = fst g) (rows df)"
  from g have v: "snd g = map (\<lambda>r. (rain r, date r)) ?grp"
    unfolding annual_agg_mem by blast
  have k: "a_meta a = fst (fst g)" "Year a = snd (fst g)"
    by (simp_all add: a annual_row_of_def Let_def)
  have dates: "map snd (snd g) = map date ?grp" by (simp add: v comp_def)
  have "\<forall>d\<in>set (map date ?grp). year d = Year a"
    by (auto simp: k prod_eq_iff)
  then have "nmonths (map date ?grp) = card (month ` set (map date ?grp))"
    by (rule nmonths_one_year)
  moreover have "month ` set (map date ?grp) =
      (\<lambda>r. month (date r)) ` {r \<in> set (rows df). meta r = a_meta a \<and> year (date r) = Year a}"
    by (auto simp: k prod_eq_iff image_iff)
  moreover have "MonthsObserved a = nmonths (map snd (snd g))"
    by (simp add: a annual_row_of_def Let_def)
  ultimately have m: "MonthsObserved a =
           card ((\<lambda>r. month (date r)) `
             {r \<in> set (rows df). meta r = a_meta a \<and> year (date r) = Year a})"
    by (simp only: dates)
  have f: "(InsufficientMonths a \<longleftrightarrow> MonthsObserved a < min_months) \<and>
      (Flagged a \<longleftrightarrow> IncompleteYear a \<or> InsufficientMonths a)"
    by (simp add: a annual_row_of_def Let_def)
  from m f show ?thesis by auto
qed


theorem insufficient_months_flag_witness:
  "(let a = \<lparr>a_meta = example_station, Year = 2020, AnnualRainfall = 6, DaysCountY = 4,
              MissingCountY = 1, PctMissingY = 1 / 4, MonthsObserved = 1, MissingMonths = 11,
              IncompleteYear = False, InsufficientMonths = False, Flagged = False\<rparr>
    in a \<in> set (snd (summarize_annual example_frame (1 / 4) 1)) \<and>
       MonthsObserved a = 1 \<and> \<not> InsufficientMonths a \<and>
       (Flagged a \<longleftrightarrow> IncompleteYear a \<or> InsufficientMonths a))"
  using insufficient_months_flag [of
      "\<lparr>a_meta = example_station, Year = 2020, AnnualRainfall = 6, DaysCountY = 4,
              MissingCountY = 1, PctMissingY = 1 / 4, MonthsObserved = 1, MissingMonths = 11,
              IncompleteYear = False, InsufficientMonths = False, Flagged = False\<rparr>"
      example_frame "1 / 4" 1]
  by (simp add: example_annual)

subsection \<open>Order and uniqueness of the summary rows\<close>



subsection \<open>Effect on the caller's table\<close>

text \<open>
  C10. Both summaries assign to the table they are given: after summarize_monthly the
  table has a YearMonth column, after summarize_annual a Year and a Month column, each
  with one value per row, so a table that lacked the column is not what it was. The
  rows and the other columns are as before.
\<close>

theorem summaries_mutate_input:
  "rows (fst (summarize_monthly df thr)) = rows df \<and>
   col_Year (fst (summarize_monthly df thr)) = col_Year df \<and>
   col_Month (fst (summarize_monthly df thr)) = col_Month df \<and>
   col_YearMonth (fst (summarize_monthly df thr)) =
     Some (map (\<lambda>r. (year (date r), month (date r))) (rows df)) \<and>
   (col_YearMonth df = None \<longrightarrow> fst (summarize_monthly df thr) \<noteq> df) \<and>
   rows (fst (summarize_annual df thr mm)) = rows df \<and>
   col_YearMonth (fst (summarize_annual df thr mm)) = col_YearMonth df \<and>
   col_Year (fst (summarize_annual df thr mm)) = Some (map (\<lambda>r. year (date r)) (rows df)) \<and>
   col_Month (fst (summarize_annual df thr mm)) = Some (map (\<lambda>r. month (date r)) (rows df)) \<and>
   (col_Year df = None \<or> col_Month df = None \<longrightarrow> fst (summarize_annual df thr mm) \<noteq> df)"
proof -
  have m: "fst (summarize_monthly df thr) =
      df\<lparr>col_YearMonth := Some (map (\<lambda>r. to_period_M (date r)) (rows df))\<rparr>"
    by (simp add: summarize_monthly_def Let_def)
  have a: "fst (summarize_annual df thr mm) =
      df\<lparr>col_Year := Some (map (\<lambda>r. year (date r)) (rows df)),
         col_Month := Some (map (\<lambda>r. month (date r)) (rows df))\<rparr>"
    by (simp add: summarize_annual_def Let_def)
  have 1: "col_YearMonth df = None \<longrightarrow> fst (summarize_monthly df thr) \<noteq> df"
  proof
    assume n: "col_YearMonth df = None"
    show "fst (summarize_monthly df thr) \<noteq> df"
    proof
      assume "fst (summarize_monthly df thr) = df"
      then have "col_YearMonth (fst (summarize_monthly df thr)) = col_YearMonth df" by simp
      with n show False by (simp add: m)
    qed
  qed
  have 2: "col_Year df = None \<or> col_Month df = None \<longrightarrow> fst (summarize_annual df thr mm) \<noteq> df"
  proof
    assume n: "col_Year df = None \<or> col_Month df = None"
    show "fst (summarize_annual df thr mm) \<noteq> df"
    proof
      assume e: "fst (summarize_annual df thr mm) = df"
      then have "col_Year (fst (summarize_annual df thr mm)) = col_Year df"
        "col_Month (fst (summarize_annual df thr mm)) = col_Month df" by simp_all
      with n show False by (auto simp: a)
    qed
  qed
  show ?thesis using 1 2 by (simp add: m a to_period_M_def)
qed

theorem summaries_mutate_input_witness:
  "col_YearMonth example_frame = None \<and>
   fst (summarize_monthly example_frame (1 / 5)) \<noteq> example_frame \<and>
   col_Year example_frame = None \<and>
   fst (summarize_annual example_frame (1 / 5) 10) \<noteq> example_frame"
  using summaries_mutate_input [of example_frame "1 / 5" 10]
  by (simp add: example_frame_def)

section \<open>Properties of the wide pivot\<close>

lemma sum_list_single:
  "distinct cs \<Longrightarrow> a \<in> set cs \<Longrightarrow> (\<Sum>c\<leftarrow>cs. if a = c then (v::rat) else 0) = v"
proof (induction cs)
  case Nil
  then show ?case by simp
next
  case (Cons c cs)
  show ?case
  proof (cases "a = c")
    case True
    with Cons.prems have "a \<notin> set cs" by simp
    then have "(\<Sum>c\<leftarrow>cs. if a = c then v else 0) = 0"
      by (induction cs) auto
    with True show ?thesis by simp
  next
    case False
    with Cons show ?thesis by simp
  qed
qed

lemma sum_list_partition:
  fixes g :: "'a \<Rightarrow> rat"
  assumes "distinct cs" "\<forall>x\<in>set xs. P x \<longrightarrow> f x \<in> set cs"
  shows "(\<Sum>c\<leftarrow>cs. sum_list (map g (filter (\<lambda>x. P x \<and> f x = c) xs))) =
         sum_list (map g (filter P xs))"
  using assms(2)
proof (induction xs)
  case Nil
  then show ?case by simp
next
  case (Cons x xs)
  then have IH: "(\<Sum>c\<leftarrow>cs. sum_list (map g (filter (\<lambda>x. P x \<and> f x = c) xs))) =
         sum_list (map g (filter P xs))" by simp
  show ?case
  proof (cases "P x")
    case True
    with Cons.prems have m: "f x \<in> set cs" by simp
    have "(\<Sum>c\<leftarrow>cs. sum_list (map g (filter (\<lambda>y. P y \<and> f y = c) (x # xs)))) =
        (\<Sum>c\<leftarrow>cs. (if f x = c then g x else 0) +
                   sum_list (map g (filter (\<lambda>y. P y \<and> f y = c) xs)))"
      using True by (intro arg_cong [where f = sum_list] map_cong) auto
    also have "\<dots> = (\<Sum>c\<leftarrow>cs. if f x = c then g x else 0) +
        (\<Sum>c\<leftarrow>cs. sum_list (map g (filter (\<lambda>y. P y \<and> f y = c) xs)))"
      by (rule sum_list_addf)
    also have "\<dots> = g x + sum_list (map g (filter P xs))"
      using sum_list_single [OF assms(1) m] IH by simp
    finally show ?thesis using True by simp
  next
    case False
    then show ?thesis using IH by simp
  qed
qed

lemma map_of_groupby_sum:
  "map_of (map (\<lambda>g. (fst g, sum_list (snd g))) (groupby ord kvs)) k =
     (if k \<in> fst ` set kvs then Some (sum_list (map snd (filter (\<lambda>kv. fst kv = k) kvs)))
      else None)"
proof -
  let ?A = "map (\<lambda>g. (fst g, sum_list (snd g))) (groupby ord kvs)"
  have keys: "map fst ?A = sort_key ord (remdups (map fst kvs))"
    by (simp add: groupby_def comp_def)
  show ?thesis
  proof (cases "k \<in> fst ` set kvs")
    case False
    then have "k \<notin> set (map fst ?A)" unfolding keys by simp
    then have "map_of ?A k = None" by (simp only: map_of_eq_None_iff set_map not_False_eq_True)
    with False show ?thesis by simp
  next
    case True
    have d: "distinct (map fst ?A)" unfolding keys by simp
    from True have "k \<in> set (sort_key ord (remdups (map fst kvs)))" by simp
    then have "(k, sum_list (map snd (filter (\<lambda>kv. fst kv = k) kvs))) \<in> set ?A"
      by (force simp: groupby_def image_iff)
    with d have "map_of ?A k = Some (sum_list (map snd (filter (\<lambda>kv. fst kv = k) kvs)))"
      by (rule map_of_is_SomeI)
    with True show ?thesis by simp
  qed
qed

lemma filter_eq_distinct:
  "distinct xs \<Longrightarrow> filter (\<lambda>x. x = m) xs = (if m \<in> set xs then [m] else [])"
  by (induction xs) auto

lemma sum_list_filter_none:
  "\<forall>x\<in>set xs. \<not> P x \<Longrightarrow> sum_list (map g (filter P xs)) = (0::rat)"
  by (induction xs) auto

lemma pivot_wide_station_sum:
  assumes "notna_meta m"
  shows "wide_station_sum (pivot_wide monthly_df) m = long_station_sum monthly_df m"
proof -
  let ?kept = "filter (\<lambda>s. notna_meta (m_meta s)) monthly_df"
  let ?kv = "map (\<lambda>s. ((m_meta s, YearMonth s), MonthlyRainfall s)) ?kept"
  let ?A = "map (\<lambda>g. (fst g, sum_list (snd g))) (groupby (\<lambda>k. (meta_key (fst k), snd k)) ?kv)"
  let ?index = "sort_key meta_key (remdups (map (\<lambda>g. fst (fst g)) ?A))"
  let ?cols = "sort (remdups (map (\<lambda>g. snd (fst g)) ?A))"
  let ?cell = "\<lambda>c. map_of ?A (m, c)"
  let ?S = "\<lambda>c. sum_list (map MonthlyRainfall (filter (\<lambda>s. m_meta s = m \<and> YearMonth s = c) ?kept))"
  have w: "wide_rows (pivot_wide monthly_df) =
      map (\<lambda>m. (m, map (\<lambda>c. map_of ?A (m, c)) ?cols)) ?index"
    by (simp add: pivot_wide_def Let_def)
  have keysA: "fst ` set ?A = (\<lambda>s. (m_meta s, YearMonth s)) ` set ?kept"
  proof -
    have "fst ` set ?A = fst ` set (groupby (\<lambda>k. (meta_key (fst k), snd k)) ?kv)"
      by (simp add: image_image)
    also have "\<dots> = fst ` set ?kv" by (rule groupby_set_keys)
    also have "\<dots> = (\<lambda>s. (m_meta s, YearMonth s)) ` set ?kept" by (simp add: image_image)
    finally show ?thesis .
  qed
  have set_index: "set ?index = m_meta ` set ?kept"
  proof -
    have "set ?index = fst ` (fst ` set ?A)" by (simp add: image_image)
    then show ?thesis unfolding keysA by (simp add: image_image)
  qed
  have set_cols: "set ?cols = YearMonth ` set ?kept"
  proof -
    have "set ?cols = snd ` (fst ` set ?A)" by (simp add: image_image)
    then show ?thesis unfolding keysA by (simp add: image_image)
  qed
  have cell: "(case ?cell c of None \<Rightarrow> 0 | Some v \<Rightarrow> v) = ?S c" for c
  proof -
    have f: "map snd (filter (\<lambda>kv. fst kv = (m, c)) ?kv) =
        map MonthlyRainfall (filter (\<lambda>s. m_meta s = m \<and> YearMonth s = c) ?kept)"
      by (simp add: filter_map comp_def)
    show ?thesis
    proof (cases "(m, c) \<in> fst ` set ?kv")
      case True
      then show ?thesis unfolding map_of_groupby_sum f by simp
    next
      case False
      then have "\<forall>s\<in>set ?kept. \<not> (m_meta s = m \<and> YearMonth s = c)" by force
      then have "?S c = 0" by (rule sum_list_filter_none)
      with False show ?thesis unfolding map_of_groupby_sum by simp
    qed
  qed
  have row: "nansum (map ?cell ?cols) = sum_list (map MonthlyRainfall (filter (\<lambda>s. m_meta s = m) ?kept))"
  proof -
    have "nansum (map ?cell ?cols) = (\<Sum>c\<leftarrow>?cols. ?S c)"
      unfolding nansum_def map_map comp_def cell ..
    also have "\<dots> = sum_list (map MonthlyRainfall (filter (\<lambda>s. m_meta s = m) ?kept))"
    proof (rule sum_list_partition)
      show "distinct ?cols" by simp
      show "\<forall>s\<in>set ?kept. m_meta s = m \<longrightarrow> YearMonth s \<in> set ?cols"
        unfolding set_cols by blast
    qed
    finally show ?thesis .
  qed
  have long: "sum_list (map MonthlyRainfall (filter (\<lambda>s. m_meta s = m) ?kept)) =
      long_station_sum monthly_df m"
  proof -
    have "filter (\<lambda>s. m_meta s = m) ?kept = filter (\<lambda>s. m_meta s = m) monthly_df"
      using assms by (auto simp: filter_filter intro: filter_cong)
    then show ?thesis by (simp add: long_station_sum_def)
  qed
  have "filter (\<lambda>r. fst r = m) (wide_rows (pivot_wide monthly_df)) =
      map (\<lambda>m. (m, map (\<lambda>c. map_of ?A (m, c)) ?cols)) (filter (\<lambda>x. x = m) ?index)"
    unfolding w by (simp add: filter_map comp_def)
  also have "\<dots> = (if m \<in> set ?index then [(m, map ?cell ?cols)] else [])"
    by (subst filter_eq_distinct) simp_all
  finally have ws: "wide_station_sum (pivot_wide monthly_df) m =
      (if m \<in> set ?index then nansum (map ?cell ?cols) else 0)"
    by (simp add: wide_station_sum_def)
  show ?thesis
  proof (cases "m \<in> set ?index")
    case True
    with ws row long show ?thesis by simp
  next
    case False
    then have "\<forall>s\<in>set ?kept. \<not> m_meta s = m" unfolding set_index by blast
    then have "sum_list (map MonthlyRainfall (filter (\<lambda>s. m_meta s = m) ?kept)) = 0"
      by (rule sum_list_filter_none)
    with False ws long show ?thesis by simp
  qed
qed

lemma round3_zero: "round3 0 = 0"
  by (simp add: round3_def round_half_even_def)

lemma example_nan_monthly: "snd (summarize_monthly example_frame_nan (1 / 5)) =
  [\<lparr>m_meta = example_station, YearMonth = ''2020-01'', MonthlyRainfall = 2, DaysCount = 1,
    MissingCount = 0, PctMissing = 0, IncompleteMonth = False\<rparr>,
   \<lparr>m_meta = example_station_nan, YearMonth = ''2020-01'', MonthlyRainfall = 5, DaysCount = 1,
    MissingCount = 0, PctMissing = 0, IncompleteMonth = False\<rparr>]"
  by (simp add: summarize_monthly_def monthly_agg_def groupby_def example_frame_nan_def
      to_period_M_def monthly_row_of_def nansum_def isna_sum_def period_str_def digit_char_def
      round3_zero Let_def example_station_def example_station_nan_def meta_key_def nan_last_def)

lemma example_notna: "notna_meta example_station" "\<not> notna_meta example_station_nan"
  by (simp_all add: notna_meta_def example_station_def example_station_nan_def del: not_None_eq)

lemma example_stations_differ: "example_station \<noteq> example_station_nan"
  using example_notna by auto

lemma example_nan_wide: "pivot_wide (snd (summarize_monthly example_frame_nan (1 / 5))) =
  \<lparr>period_cols = [''2020-01''], wide_rows = [(example_station, [Some 2])]\<rparr>"
  unfolding example_nan_monthly
  by (simp add: pivot_wide_def groupby_def example_notna Let_def)

text \<open>
  C4. For every monthly summary table and every station in it, the cells of the station's
  row of the wide table add up to the station's MonthlyRainfall values in the long table.
  The lemma \<open>pivot_wide_station_sum\<close> proves this for a station whose seven station
  columns all hold a value. A station with a missing station value has no row in the
  wide table: in the example below the long table holds 5 for it and the wide table
  nothing.
\<close>

theorem pivot_wide_drops_station:
  "long_station_sum (snd (summarize_monthly example_frame_nan (1 / 5))) example_station_nan = 5 \<and>
   wide_station_sum (pivot_wide (snd (summarize_monthly example_frame_nan (1 / 5))))
     example_station_nan = 0"
  unfolding example_nan_wide unfolding example_nan_monthly
  by (simp add: long_station_sum_def wide_station_sum_def example_stations_differ)

section \<open>Properties of the loader\<close>

lemma dropna_date_Nil: "dropna_date [] = []"
  by (simp add: dropna_date_def List.map_filter_simps)

lemma dropna_date_Cons:
  "dropna_date (x # xs) =
     (case fst (snd x) of None \<Rightarrow> dropna_date xs
      | Some d \<Rightarrow> \<lparr>meta = fst x, date = d, rain = snd (snd x)\<rparr> # dropna_date xs)"
  by (simp add: dropna_date_def List.map_filter_simps split: option.splits)

lemma coerce_types_sel:
  "fst (coerce_types td tn fmt r) = raw_meta r"
  "fst (snd (coerce_types td tn fmt r)) = td (raw_date r) fmt"
  "snd (snd (coerce_types td tn fmt r)) = tn (raw_rain r)"
  by (simp_all add: coerce_types_def)

lemma dropna_coerce:
  "dropna_date (map (coerce_types td tn fmt) rs) = out \<Longrightarrow>
     map meta out = map raw_meta (filter (\<lambda>r. td (raw_date r) fmt \<noteq> None) rs) \<and>
     map (\<lambda>d. Some (date d)) out = map (\<lambda>r. td (raw_date r) fmt) (filter (\<lambda>r. td (raw_date r) fmt \<noteq> None) rs) \<and>
     map rain out = map (\<lambda>r. tn (raw_rain r)) (filter (\<lambda>r. td (raw_date r) fmt \<noteq> None) rs)"
proof (induction rs arbitrary: out)
  case Nil
  then show ?case by (simp add: dropna_date_Nil)
next
  case (Cons r rs)
  show ?case
  proof (cases "td (raw_date r) fmt")
    case None
    with Cons.prems have "dropna_date (map (coerce_types td tn fmt) rs) = out"
      by (simp add: dropna_date_Cons coerce_types_sel)
    from Cons.IH [OF this] None show ?thesis by simp
  next
    case (Some d)
    with Cons.prems have
      "out = \<lparr>meta = raw_meta r, date = d, rain = tn (raw_rain r)\<rparr> #
             dropna_date (map (coerce_types td tn fmt) rs)"
      by (simp add: dropna_date_Cons coerce_types_sel)
    with Cons.IH [OF refl] Some show ?thesis by simp
  qed
qed

lemma load_loop_eq:
  "load_loop rd fs frames out =
     (frames @ List.map_filter (\<lambda>f. case rd f of Inr d \<Rightarrow> Some d | Inl e \<Rightarrow> None) fs,
      out @ map (\<lambda>f. case rd f of Inr d \<Rightarrow> Loaded (basename f) (length d)
                        | Inl e \<Rightarrow> Skipping (basename f) e) fs)"
proof (induction fs arbitrary: frames out)
  case Nil
  then show ?case by (simp add: List.map_filter_simps)
next
  case (Cons f fs)
  then show ?case by (cases "rd f") (simp_all add: List.map_filter_simps)
qed

lemma map_filter_Nil_conv: "List.map_filter g xs = [] \<longleftrightarrow> (\<forall>x\<in>set xs. g x = None)"
  by (induction xs) (auto simp: List.map_filter_simps split: option.splits)

lemma missing_columns_error:
  "read_csv f = Inr csv \<Longrightarrow> \<not> set REQUIRED_COLS \<subseteq> set (columns csv) \<Longrightarrow>
     read_and_validate_csv read_csv td tn f fmt =
       Inl (ValueError ''Missing columns'' (filter (\<lambda>c. c \<notin> set (columns csv)) REQUIRED_COLS))"
  by (auto simp: read_and_validate_csv_def Let_def filter_empty_conv)

lemma load_folder_eq:
  "load_folder glob_csv read_csv td tn dir fmt =
     (if glob_csv dir = [] then (Inl (FileNotFoundError ''No CSV files found in the folder.''), [])
      else if List.map_filter (validated (\<lambda>f. read_and_validate_csv read_csv td tn f fmt)) (glob_csv dir) = []
      then (Inl (RuntimeError ''No valid CSVs after validation.''),
            map (printed (\<lambda>f. read_and_validate_csv read_csv td tn f fmt)) (glob_csv dir))
      else (Inr \<lparr>rows = concat (List.map_filter
                    (validated (\<lambda>f. read_and_validate_csv read_csv td tn f fmt)) (glob_csv dir)),
                col_YearMonth = None, col_Year = None, col_Month = None\<rparr>,
            map (printed (\<lambda>f. read_and_validate_csv read_csv td tn f fmt)) (glob_csv dir)))"
proof -
  have v: "validated (\<lambda>f. read_and_validate_csv read_csv td tn f fmt) =
      (\<lambda>f. case read_and_validate_csv read_csv td tn f fmt of Inr d \<Rightarrow> Some d | Inl e \<Rightarrow> None)"
    by (simp add: validated_def fun_eq_iff)
  have p: "printed (\<lambda>f. read_and_validate_csv read_csv td tn f fmt) =
      (\<lambda>f. case read_and_validate_csv read_csv td tn f fmt of
              Inr d \<Rightarrow> Loaded (basename f) (length d) | Inl e \<Rightarrow> Skipping (basename f) e)"
    by (simp add: printed_def fun_eq_iff)
  show ?thesis
    unfolding v p load_folder_def Let_def load_loop_eq by simp
qed

lemma validated_Nil_iff:
  "List.map_filter (validated rd) fs = [] \<longleftrightarrow> (\<forall>f\<in>set fs. \<forall>d. rd f \<noteq> Inr d)"
  unfolding map_filter_Nil_conv validated_def by (auto split: sum.splits)

lemma example_validate_a:
  "read_and_validate_csv example_read_csv example_to_datetime example_to_numeric ''in/a.csv''
     ''%d-%b-%y'' = Inr example_loaded"
  by (simp add: read_and_validate_csv_def example_read_csv_def example_csv_def REQUIRED_COLS_def
      coerce_types_def dropna_date_def List.map_filter_simps example_to_datetime_def
      example_to_numeric_def example_loaded_def Let_def)

lemma example_validate_b:
  "read_and_validate_csv example_read_csv example_to_datetime example_to_numeric ''in/b.csv''
     ''%d-%b-%y'' = Inl (ValueError ''Missing columns'' [''rain''])"
  by (simp add: read_and_validate_csv_def example_read_csv_def example_csv_no_rain_def
      REQUIRED_COLS_def META_COLS_def Let_def)

text \<open>
  C5. With no CSV file in the folder the load raises FileNotFoundError. Otherwise every
  file is read in turn: a file that lacks a required column is skipped, and a line with
  the missing columns is printed for it; the load returns the rows of the files that
  validate, in order, exactly when at least one file validates, and raises RuntimeError
  when none does.
\<close>

theorem load_folder_outcomes:
  fixes glob_csv read_csv to_datetime to_numeric input_folder date_format
  defines "rd \<equiv> \<lambda>f. read_and_validate_csv read_csv to_datetime to_numeric f date_format"
  defines "res \<equiv> load_folder glob_csv read_csv to_datetime to_numeric input_folder date_format"
  shows "(glob_csv input_folder = [] \<longrightarrow>
            res = (Inl (FileNotFoundError ''No CSV files found in the folder.''), [])) \<and>
         (glob_csv input_folder \<noteq> [] \<longrightarrow>
            ((\<exists>df. fst res = Inr df) \<longleftrightarrow> (\<exists>f\<in>set (glob_csv input_folder). \<exists>d. rd f = Inr d)) \<and>
            ((\<forall>f\<in>set (glob_csv input_folder). \<forall>d. rd f \<noteq> Inr d) \<longrightarrow>
               fst res = Inl (RuntimeError ''No valid CSVs after validation.'')) \<and>
            (\<forall>df. fst res = Inr df \<longrightarrow>
               rows df = concat (List.map_filter (validated rd) (glob_csv input_folder)))) \<and>
         snd res = map (printed rd) (glob_csv input_folder) \<and>
         (\<forall>f\<in>set (glob_csv input_folder). \<forall>csv. read_csv f = Inr csv \<and>
              \<not> set REQUIRED_COLS \<subseteq> set (columns csv) \<longrightarrow>
            Skipping (basename f) (ValueError ''Missing columns''
                (filter (\<lambda>c. c \<notin> set (columns csv)) REQUIRED_COLS)) \<in> set (snd res))"
proof -
  let ?fs = "glob_csv input_folder"
  note eq = load_folder_eq [of glob_csv read_csv to_datetime to_numeric input_folder date_format,
      folded rd_def res_def]
  have empty: "?fs = [] \<longrightarrow> res = (Inl (FileNotFoundError ''No CSV files found in the folder.''), [])"
    by (simp add: eq)
  have log: "snd res = map (printed rd) ?fs"
    by (simp add: eq)
  have succ: "(\<exists>df. fst res = Inr df) \<longleftrightarrow> (\<exists>f\<in>set ?fs. \<exists>d. rd f = Inr d)" if "?fs \<noteq> []"
    using that validated_Nil_iff [of rd ?fs] by (simp add: eq)
  have fail: "(\<forall>f\<in>set ?fs. \<forall>d. rd f \<noteq> Inr d) \<longrightarrow>
               fst res = Inl (RuntimeError ''No valid CSVs after validation.'')" if "?fs \<noteq> []"
    using that validated_Nil_iff [of rd ?fs] by (simp add: eq)
  have rws: "\<forall>df. fst res = Inr df \<longrightarrow> rows df = concat (List.map_filter (validated rd) ?fs)"
    by (auto simp: eq split: if_splits)
  have skip: "\<forall>f\<in>set ?fs. \<forall>csv. read_csv f = Inr csv \<and> \<not> set REQUIRED_COLS \<subseteq> set (columns csv) \<longrightarrow>
            Skipping (basename f) (ValueError ''Missing columns''
                (filter (\<lambda>c. c \<notin> set (columns csv)) REQUIRED_COLS)) \<in> set (snd res)"
  proof (intro ballI allI impI)
    fix f csv
    assume f: "f \<in> set ?fs"
      and c: "read_csv f = Inr csv \<and> \<not> set REQUIRED_COLS \<subseteq> set (columns csv)"
    from c have "rd f = Inl (ValueError ''Missing columns''
                (filter (\<lambda>c. c \<notin> set (columns csv)) REQUIRED_COLS))"
      unfolding rd_def by (intro missing_columns_error) simp_all
    then have "printed rd f = Skipping (basename f) (ValueError ''Missing columns''
                (filter (\<lambda>c. c \<notin> set (columns csv)) REQUIRED_COLS))"
      by (simp add: printed_def)
    moreover from f have "printed rd f \<in> set (map (printed rd) ?fs)" by simp
    ultimately show "Skipping (basename f) (ValueError ''Missing columns''
                (filter (\<lambda>c. c \<notin> set (columns csv)) REQUIRED_COLS)) \<in> set (snd res)"
      unfolding log by simp
  qed
  show ?thesis
    apply (intro conjI)
    subgoal by (rule empty)
    subgoal using succ fail rws by blast
    subgoal by (rule log)
    subgoal by (rule skip)
    done
qed

theorem load_folder_outcomes_witness:
  "example_glob ''in'' \<noteq> [] \<and>
   load_folder example_glob example_read_csv example_to_datetime example_to_numeric ''in''
     ''%d-%b-%y'' =
     (Inr \<lparr>rows = example_loaded, col_YearMonth = None, col_Year = None, col_Month = None\<rparr>,
      [Loaded ''a.csv'' 2, Skipping ''b.csv'' (ValueError ''Missing columns'' [''rain''])]) \<and>
   example_glob ''out'' = [] \<and>
   load_folder example_glob example_read_csv example_to_datetime example_to_numeric ''out''
     ''%d-%b-%y'' = (Inl (FileNotFoundError ''No CSV files found in the folder.''), [])"
proof -
  note t = load_folder_outcomes [of example_glob "''in''" example_read_csv example_to_datetime
      example_to_numeric "''%d-%b-%y''"]
  note u = load_folder_outcomes [of example_glob "''out''" example_read_csv example_to_datetime
      example_to_numeric "''%d-%b-%y''"]
  have g: "example_glob ''in'' = [''in/a.csv'', ''in/b.csv'']" "example_glob ''out'' = []"
    by (simp_all add: example_glob_def)
  have b: "basename ''in/a.csv'' = ''a.csv''" "basename ''in/b.csv'' = ''b.csv''"
    by (simp_all add: basename_def)
  let ?res = "load_folder example_glob example_read_csv example_to_datetime example_to_numeric
     ''in'' ''%d-%b-%y''"
  from t have log: "snd ?res = [Loaded ''a.csv'' 2,
      Skipping ''b.csv'' (ValueError ''Missing columns'' [''rain''])]"
    by (simp add: g b printed_def example_validate_a example_validate_b example_loaded_def)
  from t g obtain df where df: "fst ?res = Inr df"
    using example_validate_a by auto
  with t g have "rows df = example_loaded"
    by (simp add: validated_def List.map_filter_simps example_validate_a example_validate_b)
  moreover have "col_YearMonth df = None \<and> col_Year df = None \<and> col_Month df = None"
    using df by (auto simp: load_folder_def Let_def split: if_splits)
  ultimately have "df = \<lparr>rows = example_loaded, col_YearMonth = None, col_Year = None,
      col_Month = None\<rparr>" by simp
  with df log have "?res = (Inr \<lparr>rows = example_loaded, col_YearMonth = None, col_Year = None,
      col_Month = None\<rparr>, [Loaded ''a.csv'' 2,
      Skipping ''b.csv'' (ValueError ''Missing columns'' [''rain''])])"
    by (simp add: prod_eq_iff)
  moreover from u g have "load_folder example_glob example_read_csv example_to_datetime
      example_to_numeric ''out'' ''%d-%b-%y'' =
      (Inl (FileNotFoundError ''No CSV files found in the folder.''), [])"
    by simp
  ultimately show ?thesis using g by simp
qed

text \<open>
  C6. For a file that passes the column check, the returned table holds, in order,
  exactly the rows whose date text parses under the caller's format; each keeps its
  station columns and its parsed date, and its rain is the parsed number or the missing
  marker. So a row with a date and an unparseable rain value is kept, with rain missing;
  in the monthly summary of the returned table it is counted in DaysCount and in
  MissingCount of its station and month, and adds nothing to MonthlyRainfall.
\<close>

theorem read_and_validate_rows:
  assumes "read_csv file = Inr csv"
    and "read_and_validate_csv read_csv to_datetime to_numeric file date_format = Inr df"
  shows "(let kept = filter (\<lambda>r. to_datetime (raw_date r) date_format \<noteq> None) (raw_rows csv)
          in map meta df = map raw_meta kept \<and>
             map (\<lambda>d. Some (date d)) df = map (\<lambda>r. to_datetime (raw_date r) date_format) kept \<and>
             map rain df = map (\<lambda>r. to_numeric (raw_rain r)) kept) \<and>
         (\<forall>r\<in>set (raw_rows csv).
            to_datetime (raw_date r) date_format \<noteq> None \<and> to_numeric (raw_rain r) = None \<longrightarrow>
            (\<exists>d\<in>set df. meta d = raw_meta r \<and>
               Some (date d) = to_datetime (raw_date r) date_format \<and> rain d = None)) \<and>
         (\<forall>d\<in>set df. rain d = None \<longrightarrow>
            (\<exists>s\<in>set (snd (summarize_monthly
                  \<lparr>rows = df, col_YearMonth = None, col_Year = None, col_Month = None\<rparr>
                  missing_threshold)).
               m_meta s = meta d \<and> YearMonth s = period_str (to_period_M (date d)) \<and>
               0 < MissingCount s \<and> MissingCount s \<le> DaysCount s \<and>
               MonthlyRainfall s =
                 sum_list (List.map_filter rain
                   (filter (\<lambda>x. meta x = meta d \<and> to_period_M (date x) = to_period_M (date d) \<and>
                                rain x \<noteq> None) df))))"
proof -
  let ?kept = "filter (\<lambda>r. to_datetime (raw_date r) date_format \<noteq> None) (raw_rows csv)"
  from assms have df: "dropna_date (map (coerce_types to_datetime to_numeric date_format)
      (raw_rows csv)) = df"
    by (simp add: read_and_validate_csv_def Let_def split: if_splits)
  note c = dropna_coerce [OF df]
  have "\<exists>d\<in>set df. meta d = raw_meta r \<and>
               Some (date d) = to_datetime (raw_date r) date_format \<and> rain d = None"
    if r: "r \<in> set (raw_rows csv)" and p: "to_datetime (raw_date r) date_format \<noteq> None"
      and q: "to_numeric (raw_rain r) = None" for r
  proof -
    from r p have "r \<in> set ?kept" by simp
    then obtain i where i: "i < length ?kept" "?kept ! i = r"
      by (meson in_set_conv_nth)
    from c have l: "length df = length ?kept" by (metis length_map)
    with i have "i < length df" by simp
    moreover from c i l have "meta (df ! i) = raw_meta r"
      by (metis nth_map)
    moreover from c i l have "Some (date (df ! i)) = to_datetime (raw_date r) date_format"
      by (metis nth_map)
    moreover from c i l q have "rain (df ! i) = None"
      by (metis nth_map)
    ultimately show ?thesis by (metis nth_mem)
  qed
  then have kept: "\<forall>r\<in>set (raw_rows csv).
            to_datetime (raw_date r) date_format \<noteq> None \<and> to_numeric (raw_rain r) = None \<longrightarrow>
            (\<exists>d\<in>set df. meta d = raw_meta r \<and>
               Some (date d) = to_datetime (raw_date r) date_format \<and> rain d = None)"
    by blast
  have down: "\<forall>d\<in>set df. rain d = None \<longrightarrow>
            (\<exists>s\<in>set (snd (summarize_monthly
                  \<lparr>rows = df, col_YearMonth = None, col_Year = None, col_Month = None\<rparr>
                  missing_threshold)).
               m_meta s = meta d \<and> YearMonth s = period_str (to_period_M (date d)) \<and>
               0 < MissingCount s \<and> MissingCount s \<le> DaysCount s \<and>
               MonthlyRainfall s =
                 sum_list (List.map_filter rain
                   (filter (\<lambda>x. meta x = meta d \<and> to_period_M (date x) = to_period_M (date d) \<and>
                                rain x \<noteq> None) df)))"
  proof (intro ballI impI)
    fix d assume "d \<in> set df" "rain d = None"
    then show "\<exists>s\<in>set (snd (summarize_monthly
                  \<lparr>rows = df, col_YearMonth = None, col_Year = None, col_Month = None\<rparr>
                  missing_threshold)).
               m_meta s = meta d \<and> YearMonth s = period_str (to_period_M (date d)) \<and>
               0 < MissingCount s \<and> MissingCount s \<le> DaysCount s \<and>
               MonthlyRainfall s =
                 sum_list (List.map_filter rain
                   (filter (\<lambda>x. meta x = meta d \<and> to_period_M (date x) = to_period_M (date d) \<and>
                                rain x \<noteq> None) df))"
      using missing_rain_counted [of d "\<lparr>rows = df, col_YearMonth = None, col_Year = None,
          col_Month = None\<rparr>" missing_threshold] by simp
  qed
  from c kept down show ?thesis unfolding Let_def by blast
qed

theorem read_and_validate_rows_witness:
  "example_read_csv ''in/a.csv'' = Inr example_csv \<and>
   read_and_validate_csv example_read_csv example_to_datetime example_to_numeric ''in/a.csv''
     ''%d-%b-%y'' = Inr example_loaded \<and>
   map rain example_loaded = [Some (5 / 2), None] \<and>
   length example_loaded = 2 \<and> length (raw_rows example_csv) = 3"
proof -
  have h1: "example_read_csv ''in/a.csv'' = Inr example_csv"
    by (simp add: example_read_csv_def)
  from read_and_validate_rows [OF h1 example_validate_a]
  have "map rain example_loaded = map (\<lambda>r. example_to_numeric (raw_rain r))
      (filter (\<lambda>r. example_to_datetime (raw_date r) ''%d-%b-%y'' \<noteq> None) (raw_rows example_csv))"
    unfolding Let_def by blast
  then have "map rain example_loaded = [Some (5 / 2), None]"
    by (simp add: example_csv_def example_to_datetime_def example_to_numeric_def)
  with h1 example_validate_a show ?thesis
    by (simp add: example_loaded_def example_csv_def)
qed

section \<open>Properties of the save\<close>

lemma rfind_found:
  assumes "c \<in> set p"
  shows "0 \<le> rfind p c \<and> nat (rfind p c) < length p \<and> p ! nat (rfind p c) = c"
proof -
  let ?j = "length (takeWhile (\<lambda>x. x \<noteq> c) (rev p))"
  from assms have "takeWhile (\<lambda>x. x \<noteq> c) (rev p) \<noteq> rev p"
    by (auto simp: takeWhile_eq_all_conv)
  moreover have "?j \<le> length (rev p)" by (rule length_takeWhile_le)
  ultimately have j: "?j < length (rev p)"
    by (metis le_neq_implies_less takeWhile_eq_take take_all_iff order_refl length_rev)
  then have "\<not> (rev p ! ?j \<noteq> c)" by (rule nth_length_takeWhile)
  then have e: "rev p ! ?j = c" by simp
  from j have jl: "?j < length p" by simp
  then have "rev p ! ?j = p ! (length p - Suc ?j)" by (rule rev_nth)
  with e have n: "p ! (length p - Suc ?j) = c" by simp
  from assms have r: "rfind p c = int (length p) - 1 - int ?j" by (simp add: rfind_def)
  with jl have "nat (rfind p c) = length p - Suc ?j" by simp
  with r jl n show ?thesis by auto
qed

lemma rfind_absent: "c \<notin> set p \<Longrightarrow> rfind p c = - 1"
  by (simp add: rfind_def)

lemma rfind_ge: "- 1 \<le> rfind p c"
  using rfind_found [of c p] by (cases "c \<in> set p") (simp_all add: rfind_absent)

lemma splitext_parts:
  "fst (splitext p) @ snd (splitext p) = p \<and>
   (snd (splitext p) = [] \<or> hd (snd (splitext p)) = CHR ''.'')"
proof (cases "rfind p (CHR ''/'') < rfind p (CHR ''.'') \<and>
      list_ex (\<lambda>c. c \<noteq> CHR ''.'')
        (drop (nat (rfind p (CHR ''/'') + 1)) (take (nat (rfind p (CHR ''.''))) p))")
  case True
  then have s: "splitext p = (take (nat (rfind p (CHR ''.''))) p, drop (nat (rfind p (CHR ''.''))) p)"
    by (simp add: splitext_def Let_def)
  from True rfind_ge [of p "CHR ''/''"] have "0 \<le> rfind p (CHR ''.'')" by simp
  then have "CHR ''.'' \<in> set p"
    using rfind_absent [of "CHR ''.''" p] by fastforce
  then have "nat (rfind p (CHR ''.'')) < length p" "p ! nat (rfind p (CHR ''.'')) = CHR ''.''"
    using rfind_found by blast+
  then have "hd (drop (nat (rfind p (CHR ''.''))) p) = CHR ''.''"
    by (simp add: hd_drop_conv_nth)
  with s show ?thesis by simp
next
  case False
  then have "splitext p = (p, [])" by (auto simp: splitext_def Let_def)
  then show ?thesis by simp
qed

lemma fallback_differs: "fst (splitext p) @ ''_'' @ ts @ ''.csv'' \<noteq> p"
proof
  assume e: "fst (splitext p) @ ''_'' @ ts @ ''.csv'' = p"
  have "fst (splitext p) @ snd (splitext p) = p" using splitext_parts by blast
  with e have x: "snd (splitext p) = ''_'' @ ts @ ''.csv''" by (metis same_append_eq)
  then have "snd (splitext p) \<noteq> []" "hd (snd (splitext p)) = CHR ''_''" by simp_all
  with splitext_parts [of p] show False by auto
qed

lemma example_splitext: "splitext ''out/summary.csv'' = (''out/summary'', ''.csv'')"
  by (simp add: splitext_def rfind_def Let_def)

text \<open>
  C7, as the code has it. When the write to the target path succeeds, the target path
  is returned. When it raises PermissionError and the path with the timestamp suffix can
  be written, the same table is written there, that path (which differs from the target)
  is returned and the target is left as it was. A write that fails with another error,
  and a failure of the second write, leave the function as an exception.
\<close>

theorem safe_save_csv_cases:
  fixes fs :: "'a filesystem"
  defines "fallback_file \<equiv> \<lambda>output_file timestamp. fst (splitext output_file) @ ''_'' @ timestamp @ ''.csv''"
  shows "(on_write fs output_file = Writes \<longrightarrow>
            safe_save_csv timestamp fs df output_file =
              (Inr output_file, fs\<lparr>files := (files fs)(output_file := Some df)\<rparr>)) \<and>
         (on_write fs output_file = Locked \<and>
          on_write fs (fallback_file output_file timestamp) = Writes \<longrightarrow>
            safe_save_csv timestamp fs df output_file =
              (Inr (fallback_file output_file timestamp),
               fs\<lparr>files := (files fs)(fallback_file output_file timestamp := Some df)\<rparr>) \<and>
            fallback_file output_file timestamp \<noteq> output_file \<and>
            files (snd (safe_save_csv timestamp fs df output_file))
              (fallback_file output_file timestamp) = Some df \<and>
            files (snd (safe_save_csv timestamp fs df output_file)) output_file =
              files fs output_file) \<and>
         (on_write fs output_file = Fails \<longrightarrow>
            safe_save_csv timestamp fs df output_file = (Inl OSError, fs)) \<and>
         (on_write fs output_file = Locked \<and>
          on_write fs (fallback_file output_file timestamp) = Locked \<longrightarrow>
            safe_save_csv timestamp fs df output_file = (Inl PermissionError, fs)) \<and>
         (on_write fs output_file = Locked \<and>
          on_write fs (fallback_file output_file timestamp) = Fails \<longrightarrow>
            safe_save_csv timestamp fs df output_file = (Inl OSError, fs))"
proof -
  have d: "fallback_file output_file timestamp \<noteq> output_file"
    unfolding fallback_file_def by (rule fallback_differs)
  show ?thesis
    using d unfolding fallback_file_def
    by (simp add: safe_save_csv_def to_csv_def Let_def)
qed

theorem safe_save_csv_cases_witness:
  "on_write example_fs_locked ''out/summary.csv'' = Locked \<and>
   on_write example_fs_locked ''out/summary_20251104-093000.csv'' = Writes \<and>
   fst (safe_save_csv ''20251104-093000'' example_fs_locked [] ''out/summary.csv'') =
     Inr ''out/summary_20251104-093000.csv'' \<and>
   files (snd (safe_save_csv ''20251104-093000'' example_fs_locked [] ''out/summary.csv''))
     ''out/summary_20251104-093000.csv'' = Some []"
  using safe_save_csv_cases [of example_fs_locked "''out/summary.csv''" "''20251104-093000''" "[]"]
  by (simp add: example_splitext example_fs_locked_def)

text \<open>
  C7 as stated (the save never aborts on a write failure) fails: with a target directory
  that does not exist the first write raises an OSError that is not caught, and with a
  read-only directory the second write raises PermissionError again.
\<close>

theorem safe_save_csv_aborts:
  "safe_save_csv ''20251104-093000'' example_fs_missing_dir [] ''out/summary.csv'' =
     (Inl OSError, example_fs_missing_dir) \<and>
   safe_save_csv ''20251104-093000'' example_fs_read_only [] ''out/summary.csv'' =
     (Inl PermissionError, example_fs_read_only)"
  by (simp add: safe_save_csv_def to_csv_def example_fs_missing_dir_def example_fs_read_only_def)

section \<open>Properties of the lagged correlations\<close>

lemma upper_summer: "upper ''summer'' = ''SUMMER''"
  by code_simp

lemma example_merged:
  "prepare_merged example_ndvi example_rain ''summer'' (Some (1 / 4)) =
     [\<lparr>m_year = 2000, ndvi = 1 / 2, m_rain = Some 900\<rparr>,
      \<lparr>m_year = 2001, ndvi = 3 / 5, m_rain = Some 1000\<rparr>]"
  by (simp add: prepare_merged_def build_series_def merge_inner_def example_ndvi_def
      example_rain_def upper_summer List.map_filter_simps Let_def)

lemma lag_loop_eq:
  "lag_loop c base season lags out =
     out @ map (\<lambda>lag. \<lparr>c_season = season, lag_years = lag, n_pairs = length (lag_pairs base lag),
                        stats = c (map (\<lambda>x. ndvi (fst x)) (lag_pairs base lag))
                                  (map snd (lag_pairs base lag))\<rparr>)
              (filter (\<lambda>lag. \<not> length (lag_pairs base lag) < 3) lags)"
  by (induction lags arbitrary: out) (simp_all add: Let_def)

lemma length_map_filter_le: "length (List.map_filter f xs) \<le> length xs"
  by (induction xs) (auto simp: List.map_filter_simps split: option.splits)

lemma length_lag_pairs_le: "length (lag_pairs base lag) \<le> length base"
proof -
  have "length (lag_pairs base lag) \<le> length (zip base (shift (map m_rain base) (lag * - 1)))"
    unfolding lag_pairs_def by (rule length_map_filter_le)
  also have "\<dots> \<le> length base" by simp
  finally show ?thesis .
qed

lemma lagged_correlations_short:
  assumes "length (prepare_merged df rain_df season min_ndvi) < 3"
  shows "lagged_correlations c df rain_df season lags min_ndvi = Inl (KeyError ''season'')"
proof -
  have "\<not> \<not> length (lag_pairs (prepare_merged df rain_df season min_ndvi) lag) < 3" for lag
    using assms length_lag_pairs_le [of "prepare_merged df rain_df season min_ndvi" lag] by simp
  then have "filter (\<lambda>lag. \<not> length (lag_pairs (prepare_merged df rain_df season min_ndvi) lag) < 3) lags = []"
    by (simp add: filter_empty_conv)
  then show ?thesis
    by (simp add: lagged_correlations_def lag_loop_eq Let_def)
qed

lemma lagged_correlations_rows:
  assumes "\<exists>lag\<in>set lags. 3 \<le> length (lag_pairs (prepare_merged df rain_df season min_ndvi) lag)"
  shows "lagged_correlations c df rain_df season lags min_ndvi =
     Inr (sort_key (\<lambda>r. (c_season r, lag_years r))
       (map (\<lambda>lag. \<lparr>c_season = season, lag_years = lag,
                     n_pairs = length (lag_pairs (prepare_merged df rain_df season min_ndvi) lag),
                     stats = c (map (\<lambda>x. ndvi (fst x))
                                  (lag_pairs (prepare_merged df rain_df season min_ndvi) lag))
                               (map snd (lag_pairs (prepare_merged df rain_df season min_ndvi) lag))\<rparr>)
            (filter (\<lambda>lag. 3 \<le> length (lag_pairs (prepare_merged df rain_df season min_ndvi) lag))
               lags)))"
proof -
  let ?base = "prepare_merged df rain_df season min_ndvi"
  have f: "filter (\<lambda>lag. \<not> length (lag_pairs ?base lag) < 3) lags =
      filter (\<lambda>lag. 3 \<le> length (lag_pairs ?base lag)) lags"
    by (simp add: not_less)
  from assms have "filter (\<lambda>lag. 3 \<le> length (lag_pairs ?base lag)) lags \<noteq> []"
    by (simp add: filter_empty_conv)
  then show ?thesis
    by (simp add: lagged_correlations_def lag_loop_eq Let_def f)
qed

lemma length_shift: "length (shift ys k) = length ys"
  by (simp add: shift_def)

lemma nth_shift:
  "i < length ys \<Longrightarrow>
     shift ys k ! i = (if 0 \<le> int i - k \<and> int i - k < int (length ys)
                       then ys ! nat (int i - k) else None)"
  unfolding shift_def by (simp only: nth_map_upt length_upt add_0 minus_nat.diff_0)

lemma lag_pairs_mem:
  assumes "(x, v) \<in> set (lag_pairs base lag)"
  shows "\<exists>i<length base. x = base ! i \<and> 0 \<le> int i + lag \<and> int i + lag < int (length base) \<and>
           m_rain (base ! nat (int i + lag)) = Some v"
proof -
  let ?sh = "shift (map m_rain base) (lag * - 1)"
  from assms obtain y where y: "y \<in> set (zip base ?sh)"
    and e: "(case snd y of None \<Rightarrow> None | Some v \<Rightarrow> Some (fst y, v)) = Some (x, v)"
    unfolding lag_pairs_def by (auto simp: List.map_filter_def)
  from y obtain i where i: "i < length base" and yi: "y = (base ! i, ?sh ! i)"
    by (auto simp: in_set_zip length_shift)
  from e yi have x: "x = base ! i" and sv: "?sh ! i = Some v"
    by (auto split: option.splits)
  have "?sh ! i = (if 0 \<le> int i + lag \<and> int i + lag < int (length base)
                       then m_rain (base ! nat (int i + lag)) else None)"
  proof (cases "0 \<le> int i + lag \<and> int i + lag < int (length base)")
    case True
    then have "nat (int i + lag) < length base" by linarith
    with True i show ?thesis by (simp add: nth_shift)
  next
    case False
    with i show ?thesis by (auto simp: nth_shift)
  qed
  with sv have "0 \<le> int i + lag \<and> int i + lag < int (length base) \<and>
      m_rain (base ! nat (int i + lag)) = Some v"
    by (simp split: if_splits)
  with i x show ?thesis by blast
qed

lemma prepare_merged_sorted: "sorted (map m_year (prepare_merged df rain_df season min_ndvi))"
  unfolding prepare_merged_def Let_def by (rule sorted_sort_key)

lemma lag_pairs_later_year:
  assumes "(x, v) \<in> set (lag_pairs (prepare_merged df rain_df season min_ndvi) lag)" "0 < lag"
  shows "\<exists>y\<in>set (prepare_merged df rain_df season min_ndvi).
           m_rain y = Some v \<and> m_year x \<le> m_year y"
proof -
  let ?base = "prepare_merged df rain_df season min_ndvi"
  from lag_pairs_mem [OF assms(1)] obtain i where i: "i < length ?base" "x = ?base ! i"
    "0 \<le> int i + lag" "int i + lag < int (length ?base)"
    "m_rain (?base ! nat (int i + lag)) = Some v" by blast
  let ?j = "nat (int i + lag)"
  from i assms(2) have j: "i \<le> ?j" "?j < length ?base" by simp_all
  with prepare_merged_sorted [of df rain_df season min_ndvi]
  have "map m_year ?base ! i \<le> map m_year ?base ! ?j"
    by (intro sorted_nth_mono) simp_all
  with i j have "m_year x \<le> m_year (?base ! ?j)" by simp
  moreover from j have "?base ! ?j \<in> set ?base" by simp
  ultimately show ?thesis using i(5) by blast
qed

text \<open>
  C8. Lags that give fewer than three pairs are left out without an error. This fails
  when every lag is left out: the table of result rows then has no columns, the final
  sort by season and lag raises KeyError, and no table is returned. Two years of
  data, with the default lags, are such an input.
\<close>

theorem lagged_correlations_raises:
  "lagged_correlations corr_with_p example_ndvi example_rain ''summer'' [- 2, - 1, 0, 1, 2]
     (Some (1 / 4)) = Inl (KeyError ''season'')"
  by (rule lagged_correlations_short) (simp add: example_merged)

end
